theory Spec2Isabelle
  imports Main
begin

section \<open>The movie application: data\<close>

text \<open>
  The component \<open>App\<close> of \<open>src/App.jsx\<close> keeps its whole state in React state hooks.
  The model keeps one record with a field per hook; a setter call is a record update,
  applied in the order in which the source calls the setters. A functional setter
  (\<open>setPage(prevPage => prevPage + 1)\<close>) reads the field of the state it is applied to.
\<close>

text \<open>
  A movie of the catalog, and a record of the trending store with the fields that the
  page reads and the README lists.
\<close>

record movie =
  movie_id :: int
  title :: string
  poster_path :: string

record trending_doc =
  doc_searchTerm :: string
  doc_count :: int
  doc_movie_id :: int
  doc_poster_url :: string

record app_state =
  debouncedSearchTerm :: string
  searchTerm :: string
  movieList :: "movie list"
  errorMessage :: string
  isLoading :: bool
  trendingMovies :: "trending_doc list"
  page :: int
  hasMore :: bool

text \<open>The initial values given to \<open>useState\<close>.\<close>

definition initial_state :: app_state where
  "initial_state =
     \<lparr>debouncedSearchTerm = '''', searchTerm = '''', movieList = [], errorMessage = '''',
      isLoading = False, trendingMovies = [], page = 1, hasMore = True\<rparr>"

text \<open>
  The fields of the catalog's JSON payload that \<open>fetchMovies\<close> reads. Each of them may be
  absent (\<open>undefined\<close> in the source), which is \<open>None\<close> here.
\<close>

record catalog_data =
  data_Response :: "string option"
  data_Error :: "string option"
  data_page :: "int option"
  data_total_pages :: "int option"
  data_results :: "movie list option"

text \<open>
  What \<open>await fetch(endpoint, API_OPTIONS)\<close> and \<open>await response.json()\<close> give: the
  request is rejected (network error), or a response arrives with its \<open>ok\<close> flag, whose
  body either parses to a payload or makes \<open>response.json()\<close> reject. A thrown value is
  kept as the text that \<open>${error}\<close> prints.
\<close>

datatype json_body = BodyRejects string | Body catalog_data

datatype fetch_outcome = NetworkError string | HttpResponse bool json_body

text \<open>What awaiting a promise gives: its value, or the thrown value.\<close>

datatype 'a awaited = Resolved 'a | Rejected string

text \<open>
  The two shapes of endpoint: \<open>/search/movie?query=...&page=n\<close> and
  \<open>/discover/movie?sort_by=popularity.desc&page=n\<close>.
\<close>

datatype request = SearchMovie string int | DiscoverMovie int

text \<open>The observable actions of the component, in the order in which they happen.\<close>

datatype event =
    HttpGet request
  | ConsoleError string
  | CallUpdateSearchCount string movie
  | CallGetTrendingMovies

datatype completion = Normal | Thrown string

section \<open>JavaScript operators used by \<open>fetchMovies\<close>\<close>

text \<open>\<open>data.Error || 'Failed to fetch movies'\<close>: an absent or empty string is falsy.\<close>

definition js_or :: "string option \<Rightarrow> string \<Rightarrow> string" where
  "js_or x d = (case x of None \<Rightarrow> d | Some e \<Rightarrow> if e = [] then d else e)"

text \<open>\<open>data.page < data.total_pages\<close>: a comparison with \<open>undefined\<close> is false.\<close>

definition js_lt :: "int option \<Rightarrow> int option \<Rightarrow> bool" where
  "js_lt a b = (case a of None \<Rightarrow> False
                | Some x \<Rightarrow> (case b of None \<Rightarrow> False | Some y \<Rightarrow> x < y))"

text \<open>\<open>data.results || []\<close>: an array, also an empty one, is truthy.\<close>

definition results_or_empty :: "catalog_data \<Rightarrow> movie list" where
  "results_or_empty d = (case data_results d of None \<Rightarrow> [] | Some rs \<Rightarrow> rs)"

definition endpoint :: "string \<Rightarrow> int \<Rightarrow> request" where
  "endpoint query pageNumber =
     (if query \<noteq> [] then SearchMovie query pageNumber else DiscoverMovie pageNumber)"

definition fetch_failed_text :: string where
  "fetch_failed_text = ''Failed to fetch movies''"

definition generic_error_text :: string where
  "generic_error_text = ''Error fetching movies. Please try again later.''"

definition results_undefined_text :: string where
  "results_undefined_text =
     ''TypeError: Cannot read properties of undefined (reading length)''"

section \<open>\<open>loadTrendingMovies\<close> and \<open>fetchMovies\<close>\<close>

text \<open>
  \<open>getTrendingMovies\<close> and \<open>updateSearchCount\<close> are imported from \<open>appwrite.js\<close>.
  What awaiting each call gives is a parameter of the model: \<open>gtm\<close> for
  \<open>await getTrendingMovies()\<close> and \<open>usc\<close> for \<open>await updateSearchCount(...)\<close>.

  \<open>loadTrendingMovies\<close> has its own \<open>try/catch\<close>: a rejection is logged and nothing
  else happens, so the function itself always completes normally.
\<close>

definition loadTrendingMovies ::
  "app_state \<Rightarrow> trending_doc list awaited \<Rightarrow> app_state \<times> event list" where
  "loadTrendingMovies s gtm =
     (case gtm of
        Resolved movies \<Rightarrow> (s\<lparr>trendingMovies := movies\<rparr>, [CallGetTrendingMovies])
      | Rejected e \<Rightarrow>
          (s, [CallGetTrendingMovies,
               ConsoleError (''Error fetching trending movies: '' @ e)]))"

text \<open>
  The part of \<open>fetchMovies\<close> that runs before the first \<open>await\<close>: the two setters and the
  call of \<open>fetch\<close>. The state returned is the one in which the request is issued.
\<close>

definition fetchMovies_begin ::
  "app_state \<Rightarrow> string \<Rightarrow> int \<Rightarrow> app_state \<times> event list" where
  "fetchMovies_begin s query pageNumber =
     (let s1 = s\<lparr>isLoading := True\<rparr>;
          s2 = s1\<lparr>errorMessage := ''''\<rparr>
      in (s2, [HttpGet (endpoint query pageNumber)]))"

text \<open>
  The body of the \<open>try\<close> block from the point where \<open>fetch\<close> has settled. The result
  says whether the block completed (also by its \<open>return\<close>) or threw. The later awaits
  (\<open>response.json()\<close>, \<open>updateSearchCount\<close>, \<open>loadTrendingMovies\<close>) are taken in the
  same step as the arrival of the response.
\<close>

definition fetchMovies_try ::
  "app_state \<Rightarrow> string \<Rightarrow> int \<Rightarrow> fetch_outcome \<Rightarrow> unit awaited \<Rightarrow>
   trending_doc list awaited \<Rightarrow> completion \<times> app_state \<times> event list" where
  "fetchMovies_try s query pageNumber fo usc gtm =
     (case fo of
        NetworkError e \<Rightarrow> (Thrown e, s, [])
      | HttpResponse ok body \<Rightarrow>
          if \<not> ok then (Thrown (''Error: '' @ fetch_failed_text), s, [])
          else (case body of
            BodyRejects e \<Rightarrow> (Thrown e, s, [])
          | Body d \<Rightarrow>
              if data_Response d = Some ''False''
              then (Normal,
                    s\<lparr>errorMessage := js_or (data_Error d) fetch_failed_text,
                      movieList := []\<rparr>, [])
              else
                let s1 = s\<lparr>hasMore := js_lt (data_page d) (data_total_pages d)\<rparr>;
                    s2 = (if pageNumber = 1
                          then s1\<lparr>movieList := results_or_empty d\<rparr>
                          else s1\<lparr>movieList := movieList s1 @ results_or_empty d\<rparr>)
                in if query = [] then (Normal, s2, [])
                   else (case data_results d of
                      None \<Rightarrow> (Thrown results_undefined_text, s2, [])
                    | Some rs \<Rightarrow>
                        (case rs of
                           [] \<Rightarrow> (Normal, s2, [])
                         | m # _ \<Rightarrow>
                             if pageNumber = 1
                             then (case usc of
                                Rejected e \<Rightarrow>
                                  (Thrown e, s2, [CallUpdateSearchCount query m])
                              | Resolved _ \<Rightarrow>
                                  (let (s3, ev) = loadTrendingMovies s2 gtm
                                   in (Normal, s3, CallUpdateSearchCount query m # ev)))
                             else (Normal, s2, [])))))"

text \<open>The \<open>catch\<close> block, then the \<open>finally\<close> block.\<close>

definition fetchMovies_resume ::
  "app_state \<Rightarrow> string \<Rightarrow> int \<Rightarrow> fetch_outcome \<Rightarrow> unit awaited \<Rightarrow>
   trending_doc list awaited \<Rightarrow> app_state \<times> event list" where
  "fetchMovies_resume s query pageNumber fo usc gtm =
     (case fetchMovies_try s query pageNumber fo usc gtm of
        (Normal, s1, ev) \<Rightarrow> (s1\<lparr>isLoading := False\<rparr>, ev)
      | (Thrown e, s1, ev) \<Rightarrow>
          (s1\<lparr>errorMessage := generic_error_text, isLoading := False\<rparr>,
           ev @ [ConsoleError (''Error fetching movies: '' @ e)]))"

text \<open>A whole run of \<open>fetchMovies(query, pageNumber)\<close> with nothing else in between.\<close>

definition fetchMovies ::
  "app_state \<Rightarrow> string \<Rightarrow> int \<Rightarrow> fetch_outcome \<Rightarrow> unit awaited \<Rightarrow>
   trending_doc list awaited \<Rightarrow> app_state \<times> event list" where
  "fetchMovies s query pageNumber fo usc gtm =
     (let (s0, ev0) = fetchMovies_begin s query pageNumber;
          (s1, ev1) = fetchMovies_resume s0 query pageNumber fo usc gtm
      in (s1, ev0 @ ev1))"

section \<open>Scrolling and the effects\<close>

record scroll_geometry =
  innerHeight :: int
  scrollTop :: int
  offsetHeight :: int

text \<open>
  \<open>handleScroll\<close> is a closure of the render that attached it: \<open>isLoading\<close> and
  \<open>hasMore\<close> are the values \<open>r\<close> of that render, and the listener is attached anew only
  by the effect with dependencies \<open>[isLoading, hasMore]\<close>. The functional update
  \<open>setPage(prevPage => prevPage + 1)\<close> applies to the hook state \<open>h\<close>, which holds every
  setter call made so far, rendered or not.
\<close>

definition handleScroll :: "app_state \<Rightarrow> app_state \<Rightarrow> scroll_geometry \<Rightarrow> app_state" where
  "handleScroll r h g =
     (if isLoading r \<or> \<not> hasMore r then h
      else
        let scrollPosition = innerHeight g + scrollTop g;
            scrollThreshold = offsetHeight g - 300
        in if scrollPosition \<ge> scrollThreshold then h\<lparr>page := page h + 1\<rparr> else h)"

text \<open>The effect with dependency \<open>[page]\<close>.\<close>

definition page_effect :: "app_state \<Rightarrow> app_state \<times> event list" where
  "page_effect s =
     (if page s > 1 then fetchMovies_begin s (debouncedSearchTerm s) (page s)
      else (s, []))"

text \<open>The effect with dependency \<open>[debouncedSearchTerm]\<close>.\<close>

definition debounced_term_effect :: "app_state \<Rightarrow> app_state \<times> event list" where
  "debounced_term_effect s =
     (let s1 = s\<lparr>page := 1\<rparr>;
          s2 = s1\<lparr>hasMore := True\<rparr>
      in fetchMovies_begin s2 (debouncedSearchTerm s2) 1)"

text \<open>
  \<open>setDebouncedSearchTerm(t)\<close>, called by the debounce timer, followed by the render it
  causes: setting a state to the value it has renders nothing; a new value runs the term
  effect, and the page effect after it when the term effect has changed the page number.
\<close>

definition setDebouncedSearchTerm :: "app_state \<Rightarrow> string \<Rightarrow> app_state \<times> event list" where
  "setDebouncedSearchTerm s t =
     (if t = debouncedSearchTerm s then (s, [])
      else
        let s0 = s\<lparr>debouncedSearchTerm := t\<rparr>;
            (s1, ev1) = debounced_term_effect s0;
            (s2, ev2) = (if page s1 \<noteq> page s0 then page_effect s1 else (s1, []))
        in (s2, ev1 @ ev2))"

text \<open>
  The first render: the page effect and the term effect run, in the order of the source,
  on the initial state. No other effect of the component touches the state above.
\<close>

definition app_mount :: "app_state \<times> event list" where
  "app_mount =
     (let (s1, ev1) = page_effect initial_state;
          (s2, ev2) = debounced_term_effect s1
      in (s2, ev1 @ ev2))"

text \<open>
  The initial load as a whole: the first render, then the answer to the request it
  issued.
\<close>

definition initial_load ::
  "fetch_outcome \<Rightarrow> unit awaited \<Rightarrow> trending_doc list awaited \<Rightarrow> app_state \<times> event list" where
  "initial_load fo usc gtm =
     (let (s1, ev1) = app_mount;
          (s2, ev2) = fetchMovies_resume s1 (debouncedSearchTerm s1) 1 fo usc gtm
      in (s2, ev1 @ ev2))"

section \<open>Runs of the component\<close>

text \<open>
  React keeps two things apart. The hook state takes every setter call at once. The
  values that handlers and effects read are those of the last render, and a render
  happens some time after a setter call: other events can come first. A call of
  \<open>fetchMovies\<close> is suspended at \<open>await fetch(...)\<close> until its response arrives, and
  other events, also the start of another call, can happen in between. So the system
  state is the hook state, the state of the last render, and the suspended calls, each
  with its arguments \<open>(query, pageNumber)\<close>.
\<close>

record sys =
  hooks :: app_state
  rendered :: app_state
  in_flight :: "(string \<times> int) list"

fun request_args :: "request \<Rightarrow> string \<times> int" where
  "request_args (SearchMovie q n) = (q, n)"
| "request_args (DiscoverMovie n) = ([], n)"

text \<open>The calls of \<open>fetchMovies\<close> that a transition has started.\<close>

fun started :: "event list \<Rightarrow> (string \<times> int) list" where
  "started [] = []"
| "started (HttpGet r # ev) = request_args r # started ev"
| "started (_ # ev) = started ev"

text \<open>
  A render takes the hook state as it is. Nothing happens when no hook has changed since
  the last render. Otherwise the effects whose dependency differs from the last render
  run in the order of the source, the page effect before the term effect; their setter
  calls go to the hook state and wait for the next render.
\<close>

definition rerender :: "sys \<Rightarrow> sys \<times> event list" where
  "rerender \<sigma> =
     (let h = hooks \<sigma>; r = rendered \<sigma>
      in if h = r then (\<sigma>, [])
         else
           let (h1, ev1) = (if page h \<noteq> page r then page_effect h else (h, []));
               (h2, ev2) = (if debouncedSearchTerm h \<noteq> debouncedSearchTerm r
                            then debounced_term_effect h1 else (h1, []))
           in (\<lparr>hooks = h2, rendered = h,
                in_flight = in_flight \<sigma> @ started (ev1 @ ev2)\<rparr>,
               ev1 @ ev2))"

text \<open>
  What can happen after the first render: a keystroke (\<open>setSearchTerm\<close>), the debounce
  timer (\<open>setDebouncedSearchTerm(searchTerm)\<close>, with the term of the last render), a
  scroll event (\<open>handleScroll\<close> of the last render), a render, and the arrival of the
  response for the \<open>i\<close>-th suspended call together with what the trending store answers
  if that call goes on to use it. A step gives the new state and the events it causes.
\<close>

datatype action =
    Typed string
  | Debounced
  | Scrolled scroll_geometry
  | Render
  | Arrived nat fetch_outcome "unit awaited" "trending_doc list awaited"

fun step :: "sys \<Rightarrow> action \<Rightarrow> sys \<times> event list" where
  "step \<sigma> (Typed t) = (\<sigma>\<lparr>hooks := (hooks \<sigma>)\<lparr>searchTerm := t\<rparr>\<rparr>, [])"
| "step \<sigma> Debounced =
     (\<sigma>\<lparr>hooks := (hooks \<sigma>)\<lparr>debouncedSearchTerm := searchTerm (rendered \<sigma>)\<rparr>\<rparr>, [])"
| "step \<sigma> (Scrolled g) = (\<sigma>\<lparr>hooks := handleScroll (rendered \<sigma>) (hooks \<sigma>) g\<rparr>, [])"
| "step \<sigma> Render = rerender \<sigma>"
| "step \<sigma> (Arrived i fo usc gtm) =
     (if i < length (in_flight \<sigma>)
      then
        let (q, n) = in_flight \<sigma> ! i;
            (h, ev) = fetchMovies_resume (hooks \<sigma>) q n fo usc gtm
        in (\<lparr>hooks = h, rendered = rendered \<sigma>,
             in_flight = take i (in_flight \<sigma>) @ drop (Suc i) (in_flight \<sigma>)\<rparr>, ev)
      else (\<sigma>, []))"

text \<open>The state after the first render and its effects.\<close>

definition mounted :: sys where
  "mounted =
     (let (s, ev) = app_mount
      in \<lparr>hooks = s, rendered = initial_state, in_flight = started ev\<rparr>)"

definition run :: "action list \<Rightarrow> sys" where
  "run acts = foldl (\<lambda>\<sigma> a. fst (step \<sigma> a)) mounted acts"

section \<open>The trending store\<close>

text \<open>
  The trending store is reached through \<open>appwrite.js\<close>, which is not among the
  sources. The store is the list of its records; whether its operations fail is a
  parameter.
\<close>

datatype store_fault = NoFault | Fault string

text \<open>
  Modelled from the spec: the write of \<open>updateSearchCount\<close> (\<open>appwrite.js\<close> is missing).
  The spec, section 4.5: look up the record for the exact term; if found, increment its
  count by one; if not found, create a record with count 1 that stores the movie's
  identifier and poster URL (here the movie's poster path, from which the URL is built).
\<close>

fun upsert :: "trending_doc list \<Rightarrow> string \<Rightarrow> movie \<Rightarrow> trending_doc list" where
  "upsert [] t m =
     [\<lparr>doc_searchTerm = t, doc_count = 1, doc_movie_id = movie_id m,
       doc_poster_url = poster_path m\<rparr>]"
| "upsert (d # ds) t m =
     (if doc_searchTerm d = t then d\<lparr>doc_count := doc_count d + 1\<rparr> # ds
      else d # upsert ds t m)"

text \<open>
  Modelled from the spec: \<open>updateSearchCount\<close> (\<open>appwrite.js\<close> is missing). The spec,
  section 4.5 and section 7: the record update is the write above, and its failure is
  logged and otherwise swallowed, never shown to the user. The result is what awaiting
  the call gives, the store after the call, and the log.
\<close>

definition updateSearchCount ::
  "trending_doc list \<Rightarrow> string \<Rightarrow> movie \<Rightarrow> store_fault \<Rightarrow>
   unit awaited \<times> trending_doc list \<times> event list" where
  "updateSearchCount store t m f =
     (case f of
        NoFault \<Rightarrow> (Resolved (), upsert store t m, [])
      | Fault e \<Rightarrow> (Resolved (), store, [ConsoleError e]))"

section \<open>Reading the trace\<close>

text \<open>The calls into the trending store among the events of a run.\<close>

fun is_trending_call :: "event \<Rightarrow> bool" where
  "is_trending_call (CallUpdateSearchCount _ _) = True"
| "is_trending_call CallGetTrendingMovies = True"
| "is_trending_call _ = False"

text \<open>
  The movie with which \<open>fetchMovies\<close> reaches the call of \<open>updateSearchCount\<close>, if it
  reaches it: the response is ok, carries no failure flag, and
  \<open>query && data.results.length > 0 && pageNumber === 1\<close> holds.
\<close>

definition upsert_target :: "string \<Rightarrow> int \<Rightarrow> fetch_outcome \<Rightarrow> movie option" where
  "upsert_target query pageNumber fo =
     (case fo of
        NetworkError _ \<Rightarrow> None
      | HttpResponse ok body \<Rightarrow>
          (case body of
             BodyRejects _ \<Rightarrow> None
           | Body d \<Rightarrow>
               if ok \<and> data_Response d \<noteq> Some ''False'' \<and> query \<noteq> [] \<and> pageNumber = 1
               then (case data_results d of
                       None \<Rightarrow> None
                     | Some rs \<Rightarrow> (case rs of [] \<Rightarrow> None | m # _ \<Rightarrow> Some m))
               else None))"

text \<open>The values of the scenarios of the spec, section 8.\<close>

abbreviation movieA :: movie where
  "movieA \<equiv> \<lparr>movie_id = 268, title = ''Batman'', poster_path = ''/a.jpg''\<rparr>"

abbreviation movieB :: movie where
  "movieB \<equiv> \<lparr>movie_id = 272, title = ''Batman Begins'', poster_path = ''/b.jpg''\<rparr>"

abbreviation batman_page :: "int \<Rightarrow> catalog_data" where
  "batman_page n \<equiv>
     \<lparr>data_Response = None, data_Error = None, data_page = Some n,
      data_total_pages = Some 5, data_results = Some [movieA, movieB]\<rparr>"

abbreviation invalid_key :: catalog_data where
  "invalid_key \<equiv>
     \<lparr>data_Response = Some ''False'', data_Error = Some ''Invalid API key'',
      data_page = None, data_total_pages = None, data_results = None\<rparr>"

abbreviation near_bottom :: scroll_geometry where
  "near_bottom \<equiv> \<lparr>innerHeight = 800, scrollTop = 1000, offsetHeight = 2000\<rparr>"

section \<open>Helper facts\<close>

lemmas fetch_defs =
  fetchMovies_def fetchMovies_resume_def fetchMovies_try_def fetchMovies_begin_def
  loadTrendingMovies_def

lemma fetch_trending_calls:
  "filter is_trending_call (snd (fetchMovies s q pn fo usc gtm)) =
     (case upsert_target q pn fo of
        None \<Rightarrow> []
      | Some m \<Rightarrow>
          (case usc of
             Resolved _ \<Rightarrow> [CallUpdateSearchCount q m, CallGetTrendingMovies]
           | Rejected _ \<Rightarrow> [CallUpdateSearchCount q m]))"
  by (auto simp: fetch_defs upsert_target_def Let_def
      split: fetch_outcome.splits json_body.splits option.splits list.splits awaited.splits)

lemma updateSearchCount_returns: "fst (updateSearchCount store t m f) = Resolved ()"
  by (cases f) (simp_all add: updateSearchCount_def)

text \<open>
  What \<open>handleScroll\<close> guarantees is relative to the render that attached it: events that
  have not been rendered yet do not hold it back.
\<close>

lemma handleScroll_guard:
  "(isLoading r \<or> \<not> hasMore r \<longrightarrow> handleScroll r h g = h)
   \<and> (\<not> isLoading r \<and> hasMore r \<and> offsetHeight g - (innerHeight g + scrollTop g) \<le> 300 \<longrightarrow>
        handleScroll r h g = h\<lparr>page := page h + 1\<rparr>)
   \<and> (\<not> isLoading r \<and> hasMore r \<and> offsetHeight g - (innerHeight g + scrollTop g) > 300 \<longrightarrow>
        handleScroll r h g = h)"
  by (auto simp: handleScroll_def Let_def)

text \<open>
  When nothing waits to be rendered, the debounce timer's setter and the render after
  it are \<open>setDebouncedSearchTerm\<close>.
\<close>

lemma setDebouncedSearchTerm_as_render:
  assumes "rendered \<sigma> = hooks \<sigma>"
  shows "hooks (fst (rerender (\<sigma>\<lparr>hooks := (hooks \<sigma>)\<lparr>debouncedSearchTerm := t\<rparr>\<rparr>))) =
           fst (setDebouncedSearchTerm (hooks \<sigma>) t)
       \<and> snd (rerender (\<sigma>\<lparr>hooks := (hooks \<sigma>)\<lparr>debouncedSearchTerm := t\<rparr>\<rparr>)) =
           snd (setDebouncedSearchTerm (hooks \<sigma>) t)"
proof (cases "t = debouncedSearchTerm (hooks \<sigma>)")
  case True
  then have "(hooks \<sigma>)\<lparr>debouncedSearchTerm := t\<rparr> = hooks \<sigma>"
    by simp
  with True assms show ?thesis
    by (simp add: rerender_def setDebouncedSearchTerm_def)
next
  case False
  then have "(hooks \<sigma>)\<lparr>debouncedSearchTerm := t\<rparr> \<noteq> hooks \<sigma>"
    by (metis app_state.select_convs(1) app_state.surjective app_state.update_convs(1))
  with False assms show ?thesis
    by (simp add: rerender_def setDebouncedSearchTerm_def debounced_term_effect_def
        page_effect_def fetchMovies_begin_def Let_def)
qed

text \<open>Only the arrival of a response can reach the trending store.\<close>

lemma step_no_retrieval:
  assumes "\<forall>i fo usc gtm. a \<noteq> Arrived i fo usc gtm"
  shows "CallGetTrendingMovies \<notin> set (snd (step \<sigma> a))"
  using assms
  by (cases a)
     (simp_all add: rerender_def page_effect_def debounced_term_effect_def
        fetchMovies_begin_def Let_def)

section \<open>Claims\<close>

text \<open>
  C1. A failure of the trending-record update or of the trending retrieval is only
  logged. Whatever the store does to the update and whatever the retrieval gives, a run
  of \<open>fetchMovies\<close> ends in the state in which it ends when both succeed, the list
  of trending movies apart: the same error message, list, flags and page, for every
  answer of the catalog, for a whole run and for the continuation alone. So a run whose
  catalog request succeeded ends with the empty error message. A rejected retrieval
  and a failed update change no state and add one log entry.
\<close>

theorem trending_failure_swallowed:
  "(fst (fetchMovies s q pn fo (fst (updateSearchCount store q m f)) gtm))\<lparr>trendingMovies := tm\<rparr> =
     (fst (fetchMovies s q pn fo (fst (updateSearchCount store q m NoFault)) (Resolved ms)))
       \<lparr>trendingMovies := tm\<rparr>
   \<and> (fst (fetchMovies_resume s q pn fo (fst (updateSearchCount store q m f)) gtm))
       \<lparr>trendingMovies := tm\<rparr> =
     (fst (fetchMovies_resume s q pn fo (fst (updateSearchCount store q m NoFault)) (Resolved ms)))
       \<lparr>trendingMovies := tm\<rparr>
   \<and> errorMessage (fst (fetchMovies s q pn fo (fst (updateSearchCount store q m f)) gtm)) =
     errorMessage (fst (fetchMovies s q pn fo (fst (updateSearchCount store q m NoFault))
       (Resolved ms)))
   \<and> (\<forall>d. fo = HttpResponse True (Body d) \<and> data_Response d \<noteq> Some ''False''
          \<and> (q = [] \<or> data_results d \<noteq> None) \<longrightarrow>
        errorMessage (fst (fetchMovies s q pn fo (fst (updateSearchCount store q m f)) gtm)) = [])
   \<and> (\<forall>e. loadTrendingMovies s (Rejected e) =
          (s, [CallGetTrendingMovies,
               ConsoleError (''Error fetching trending movies: '' @ e)]))
   \<and> (\<forall>e. updateSearchCount store q m (Fault e) = (Resolved (), store, [ConsoleError e]))"
proof -
  have resume: "(fst (fetchMovies_resume s' q pn fo (Resolved ()) gtm))\<lparr>trendingMovies := tm\<rparr> =
      (fst (fetchMovies_resume s' q pn fo (Resolved ()) (Resolved ms)))\<lparr>trendingMovies := tm\<rparr>"
    for s'
    by (cases gtm)
       (auto simp: fetchMovies_resume_def fetchMovies_try_def loadTrendingMovies_def Let_def
         split: fetch_outcome.splits json_body.splits option.splits list.splits)
  have whole: "(fst (fetchMovies s q pn fo (Resolved ()) gtm))\<lparr>trendingMovies := tm\<rparr> =
      (fst (fetchMovies s q pn fo (Resolved ()) (Resolved ms)))\<lparr>trendingMovies := tm\<rparr>"
    using resume [of "s\<lparr>isLoading := True, errorMessage := []\<rparr>"]
    by (simp add: fetchMovies_def fetchMovies_begin_def Let_def split_def)
  have msg: "errorMessage (fst (fetchMovies s q pn fo (Resolved ()) gtm)) =
      errorMessage (fst (fetchMovies s q pn fo (Resolved ()) (Resolved ms)))"
    by (cases gtm)
       (auto simp: fetch_defs Let_def
         split: fetch_outcome.splits json_body.splits option.splits list.splits)
  have ok: "\<forall>d. fo = HttpResponse True (Body d) \<and> data_Response d \<noteq> Some ''False''
          \<and> (q = [] \<or> data_results d \<noteq> None) \<longrightarrow>
        errorMessage (fst (fetchMovies s q pn fo (Resolved ()) gtm)) = []"
    by (cases gtm)
       (auto simp: fetch_defs Let_def split: option.splits list.splits)
  have log1: "\<forall>e. loadTrendingMovies s (Rejected e) =
          (s, [CallGetTrendingMovies, ConsoleError (''Error fetching trending movies: '' @ e)])"
    by (simp add: loadTrendingMovies_def)
  have log2: "\<forall>e. updateSearchCount store q m (Fault e) = (Resolved (), store, [ConsoleError e])"
    by (simp add: updateSearchCount_def)
  from resume [of s] whole msg ok log1 log2 show ?thesis
    unfolding updateSearchCount_returns by blast
qed

theorem trending_failure_swallowed_witness:
  "errorMessage (fst (fetchMovies initial_state ''batman'' 1
      (HttpResponse True (Body (batman_page 1)))
      (fst (updateSearchCount [] ''batman'' movieA (Fault ''store down'')))
      (Rejected ''store down''))) = []"
proof -
  have "HttpResponse True (Body (batman_page 1)) = HttpResponse True (Body (batman_page 1))
      \<and> data_Response (batman_page 1) \<noteq> Some ''False''
      \<and> (''batman'' = [] \<or> data_results (batman_page 1) \<noteq> None)"
    by simp
  with trending_failure_swallowed [where s = initial_state and q = "''batman''" and pn = 1
      and fo = "HttpResponse True (Body (batman_page 1))" and store = "[]" and m = movieA
      and f = "Fault ''store down''" and gtm = "Rejected ''store down''"]
  show ?thesis by blast
qed

text \<open>
  C2, as the code has it. A catalog fetch that fails at the transport or HTTP level
  (rejected request or a status that is not ok) sets the error message to the generic
  text, clears the loading flag, logs the error and changes nothing else: the movie list
  is the one before the fetch for every page number, page 1 included.
\<close>

theorem transport_failure_keeps_list:
  assumes "fo = NetworkError e \<or> fo = HttpResponse False b"
  shows "errorMessage (fst (fetchMovies s q pn fo usc gtm)) =
           ''Error fetching movies. Please try again later.''
       \<and> movieList (fst (fetchMovies s q pn fo usc gtm)) = movieList s
       \<and> fst (fetchMovies s q pn fo usc gtm) =
           s\<lparr>errorMessage := generic_error_text, isLoading := False\<rparr>
       \<and> fst (fetchMovies_resume s q pn fo usc gtm) =
           s\<lparr>errorMessage := generic_error_text, isLoading := False\<rparr>"
  using assms by (auto simp: fetch_defs generic_error_text_def Let_def)

theorem transport_failure_keeps_list_witness:
  "movieList (fst (fetchMovies (initial_state\<lparr>movieList := [movieA]\<rparr>) ''batman'' 3
       (HttpResponse False (BodyRejects ''x'')) (Resolved ()) (Resolved []))) = [movieA]
   \<and> errorMessage (fst (fetchMovies (initial_state\<lparr>movieList := [movieA]\<rparr>) ''batman'' 3
       (HttpResponse False (BodyRejects ''x'')) (Resolved ()) (Resolved []))) =
       ''Error fetching movies. Please try again later.''"
  using transport_failure_keeps_list [of "HttpResponse False (BodyRejects ''x'')" "''x''"
      "BodyRejects ''x''" "initial_state\<lparr>movieList := [movieA]\<rparr>" "''batman''" 3
      "Resolved ()" "Resolved []"]
  by (simp add: generic_error_text_def)

text \<open>
  C2, as the spec has it, fails: a fresh search (page 1) whose request is rejected
  leaves the list of the previous search in place; it is not cleared.
\<close>

theorem transport_failure_page1_counterexample:
  "movieList (fst (fetchMovies (initial_state\<lparr>movieList := [movieA]\<rparr>) ''batman'' 1
       (NetworkError ''TypeError: Failed to fetch'') (Resolved ()) (Resolved []))) \<noteq> []"
  by (simp add: fetch_defs initial_state_def)

text \<open>
  C3, as the code has it. The trending retrieval is not triggered by the initial load:
  the first render fetches with the empty term, and no answer to that request reaches
  the trending branch. In a run of \<open>fetchMovies\<close> the retrieval happens exactly when
  \<open>updateSearchCount\<close> was called and returned, once, as the very next event after
  that call; a term change, a keystroke, a scroll event and a render trigger none.
\<close>

theorem trending_retrieval_triggers:
  "CallGetTrendingMovies \<notin> set (snd (initial_load fo usc gtm))
   \<and> filter is_trending_call (snd (fetchMovies s q pn fo usc gtm)) =
       (case upsert_target q pn fo of
          None \<Rightarrow> []
        | Some m \<Rightarrow>
            (case usc of
               Resolved _ \<Rightarrow> [CallUpdateSearchCount q m, CallGetTrendingMovies]
             | Rejected _ \<Rightarrow> [CallUpdateSearchCount q m]))
   \<and> (\<forall>m u. upsert_target q pn fo = Some m \<longrightarrow>
        snd (fetchMovies s q pn fo (Resolved u) gtm) =
          [HttpGet (endpoint q pn), CallUpdateSearchCount q m, CallGetTrendingMovies] @
          (case gtm of
             Resolved _ \<Rightarrow> []
           | Rejected e \<Rightarrow> [ConsoleError (''Error fetching trending movies: '' @ e)]))
   \<and> CallGetTrendingMovies \<notin> set (snd (setDebouncedSearchTerm s t))
   \<and> (\<forall>\<sigma> a. (\<forall>i fo' usc' gtm'. a \<noteq> Arrived i fo' usc' gtm') \<longrightarrow>
        CallGetTrendingMovies \<notin> set (snd (step \<sigma> a)))"
proof -
  have "\<forall>m u. upsert_target q pn fo = Some m \<longrightarrow>
        snd (fetchMovies s q pn fo (Resolved u) gtm) =
          [HttpGet (endpoint q pn), CallUpdateSearchCount q m, CallGetTrendingMovies] @
          (case gtm of
             Resolved _ \<Rightarrow> []
           | Rejected e \<Rightarrow> [ConsoleError (''Error fetching trending movies: '' @ e)])"
    by (auto simp: fetch_defs upsert_target_def Let_def
        split: fetch_outcome.splits json_body.splits option.splits list.splits awaited.splits
          if_splits)
  moreover
  have "CallGetTrendingMovies \<notin> set (snd (initial_load fo usc gtm))"
    by (auto simp: initial_load_def app_mount_def page_effect_def debounced_term_effect_def
        initial_state_def fetchMovies_begin_def fetchMovies_resume_def fetchMovies_try_def
        endpoint_def Let_def
        split: fetch_outcome.splits json_body.splits)
  moreover have "CallGetTrendingMovies \<notin> set (snd (setDebouncedSearchTerm s t))"
    by (simp add: setDebouncedSearchTerm_def debounced_term_effect_def page_effect_def
        fetchMovies_begin_def Let_def)
  moreover have "\<forall>\<sigma> a. (\<forall>i fo' usc' gtm'. a \<noteq> Arrived i fo' usc' gtm') \<longrightarrow>
        CallGetTrendingMovies \<notin> set (snd (step \<sigma> a))"
    using step_no_retrieval by blast
  ultimately show ?thesis
    using fetch_trending_calls [of s q pn fo usc gtm] by simp
qed

theorem trending_retrieval_triggers_witness:
  "CallGetTrendingMovies \<notin>
     set (snd (initial_load (HttpResponse True (Body (batman_page 1))) (Resolved ()) (Resolved [])))
   \<and> filter is_trending_call
     (snd (fetchMovies initial_state ''batman'' 1 (HttpResponse True (Body (batman_page 1)))
        (Resolved ()) (Resolved []))) =
   [CallUpdateSearchCount ''batman'' movieA, CallGetTrendingMovies]"
  using trending_retrieval_triggers [of "HttpResponse True (Body (batman_page 1))" "Resolved ()"
      "Resolved []" initial_state "''batman''" 1 "[]"]
  by (simp add: upsert_target_def)

text \<open>
  C3, as the spec has it, fails: in the initial load answered by a successful response
  with results, the trending retrieval is triggered zero times, not once.
\<close>

theorem initial_load_retrieval_counterexample:
  "count_list
     (snd (initial_load (HttpResponse True (Body (batman_page 1))) (Resolved ()) (Resolved [])))
     CallGetTrendingMovies = 0"
  by (simp add: initial_load_def app_mount_def page_effect_def debounced_term_effect_def
      initial_state_def fetchMovies_begin_def fetchMovies_resume_def fetchMovies_try_def
      results_or_empty_def js_lt_def endpoint_def Let_def)

text \<open>
  C4. After a successful catalog response with result array \<open>rs\<close>, the movie list is
  \<open>rs\<close> when the requested page is 1, and the list before the response followed by
  \<open>rs\<close> otherwise; this holds for the continuation alone and for a whole run.
\<close>

theorem page_merge_replace_or_append:
  assumes "fo = HttpResponse True (Body d)"
    and "data_Response d \<noteq> Some ''False''"
    and "data_results d = Some rs"
  shows "movieList (fst (fetchMovies_resume s q pn fo usc gtm)) =
           (if pn = 1 then rs else movieList s @ rs)
       \<and> movieList (fst (fetchMovies s q pn fo usc gtm)) =
           (if pn = 1 then rs else movieList s @ rs)"
  using assms
  by (auto simp: fetch_defs results_or_empty_def Let_def split: list.splits awaited.splits)

theorem page_merge_replace_or_append_witness:
  "movieList (fst (fetchMovies (initial_state\<lparr>movieList := [movieB]\<rparr>) ''batman'' 1
      (HttpResponse True (Body (batman_page 1))) (Resolved ()) (Resolved []))) = [movieA, movieB]
   \<and> movieList (fst (fetchMovies (initial_state\<lparr>movieList := [movieB]\<rparr>) ''batman'' 2
      (HttpResponse True (Body (batman_page 2))) (Resolved ()) (Resolved []))) =
      [movieB, movieA, movieB]"
  using page_merge_replace_or_append [of "HttpResponse True (Body (batman_page 1))"
      "batman_page 1" "[movieA, movieB]" "initial_state\<lparr>movieList := [movieB]\<rparr>"
      "''batman''" 1 "Resolved ()" "Resolved []"]
    page_merge_replace_or_append [of "HttpResponse True (Body (batman_page 2))"
      "batman_page 2" "[movieA, movieB]" "initial_state\<lparr>movieList := [movieB]\<rparr>"
      "''batman''" 2 "Resolved ()" "Resolved []"]
  by simp

text \<open>
  C5. A run of \<open>fetchMovies\<close> on a successful response with result array \<open>rs\<close> calls the
  trending store as follows. For page 1, a non-empty term and a non-empty \<open>rs\<close>: one
  update, for the term and the first movie of \<open>rs\<close>, then one retrieval, whatever the
  store does to the update; the retrieval waits for the awaited update to return, which
  \<open>updateSearchCount\<close> always does. In every other case (another page, the empty term,
  no results): nothing.
\<close>

theorem trending_update_once_per_fresh_search:
  assumes "fo = HttpResponse True (Body d)"
    and "data_Response d \<noteq> Some ''False''"
    and "data_results d = Some rs"
  shows "filter is_trending_call
           (snd (fetchMovies s q pn fo (fst (updateSearchCount store q m f)) gtm)) =
         (if q \<noteq> [] \<and> rs \<noteq> [] \<and> pn = 1
          then [CallUpdateSearchCount q (hd rs), CallGetTrendingMovies] else [])
       \<and> filter is_trending_call (snd (fetchMovies s q pn fo usc gtm)) =
         (if q \<noteq> [] \<and> rs \<noteq> [] \<and> pn = 1
          then CallUpdateSearchCount q (hd rs) #
               (case usc of Resolved _ \<Rightarrow> [CallGetTrendingMovies] | Rejected _ \<Rightarrow> [])
          else [])"
  using assms
  by (cases rs; cases usc)
     (simp_all add: fetch_trending_calls updateSearchCount_returns upsert_target_def)

theorem trending_update_once_per_fresh_search_witness:
  "filter is_trending_call
     (snd (fetchMovies initial_state ''batman'' 1 (HttpResponse True (Body (batman_page 1)))
        (fst (updateSearchCount [] ''batman'' movieA (Fault ''store down''))) (Resolved []))) =
     [CallUpdateSearchCount ''batman'' movieA, CallGetTrendingMovies]
   \<and> filter is_trending_call
     (snd (fetchMovies initial_state ''batman'' 2 (HttpResponse True (Body (batman_page 2)))
        (fst (updateSearchCount [] ''batman'' movieA NoFault)) (Resolved []))) = []"
proof -
  have r: "data_Response (batman_page n) \<noteq> Some ''False''" for n
    by simp
  have d: "data_results (batman_page n) = Some [movieA, movieB]" for n
    by simp
  show ?thesis
    using trending_update_once_per_fresh_search [OF refl r [of 1] d [of 1], of initial_state
        "''batman''" 1 "[]" movieA "Fault ''store down''" "Resolved []" "Resolved ()",
        THEN conjunct1]
      trending_update_once_per_fresh_search [OF refl r [of 2] d [of 2], of initial_state
        "''batman''" 2 "[]" movieA NoFault "Resolved []" "Resolved ()", THEN conjunct1]
    by simp
qed

text \<open>
  C6. On a response whose payload has \<open>Response\<close> equal to \<open>"False"\<close>, \<open>fetchMovies\<close> sets
  the error message to the payload's \<open>Error\<close>, or to \<open>Failed to fetch movies\<close> when the
  payload gives none (or an empty one), and the movie list to the empty list; this is
  the state at the end of the run.
\<close>

theorem failure_flag_sets_message_and_clears_list:
  assumes "fo = HttpResponse True (Body d)"
    and "data_Response d = Some ''False''"
  shows "errorMessage (fst (fetchMovies s q pn fo usc gtm)) =
           (case data_Error d of
              None \<Rightarrow> ''Failed to fetch movies''
            | Some e \<Rightarrow> if e = [] then ''Failed to fetch movies'' else e)
       \<and> movieList (fst (fetchMovies s q pn fo usc gtm)) = []
       \<and> errorMessage (fst (fetchMovies_resume s q pn fo usc gtm)) =
           (case data_Error d of
              None \<Rightarrow> ''Failed to fetch movies''
            | Some e \<Rightarrow> if e = [] then ''Failed to fetch movies'' else e)
       \<and> movieList (fst (fetchMovies_resume s q pn fo usc gtm)) = []"
  using assms
  by (simp add: fetch_defs js_or_def fetch_failed_text_def Let_def split: option.splits)

theorem failure_flag_sets_message_and_clears_list_witness:
  "errorMessage (fst (fetchMovies (initial_state\<lparr>movieList := [movieA]\<rparr>) ''batman'' 1
      (HttpResponse True (Body invalid_key)) (Resolved ()) (Resolved []))) = ''Invalid API key''
   \<and> movieList (fst (fetchMovies (initial_state\<lparr>movieList := [movieA]\<rparr>) ''batman'' 1
      (HttpResponse True (Body invalid_key)) (Resolved ()) (Resolved []))) = []"
  using failure_flag_sets_message_and_clears_list [of "HttpResponse True (Body invalid_key)"
      invalid_key "initial_state\<lparr>movieList := [movieA]\<rparr>" "''batman''" 1 "Resolved ()"
      "Resolved []"]
  by simp

text \<open>
  C7. After a successful catalog response that gives page number \<open>p\<close> and total page
  count \<open>t\<close>, the more-pages flag is true if and only if \<open>p < t\<close>, whatever the state
  in which the response arrives.
\<close>

theorem more_available_iff_page_below_total:
  assumes "fo = HttpResponse True (Body d)"
    and "data_Response d \<noteq> Some ''False''"
    and "data_page d = Some p"
    and "data_total_pages d = Some t"
  shows "(hasMore (fst (fetchMovies s q pn fo usc gtm)) \<longleftrightarrow> p < t)
       \<and> (hasMore (fst (fetchMovies_resume s q pn fo usc gtm)) \<longleftrightarrow> p < t)"
  using assms
  by (auto simp: fetch_defs js_lt_def Let_def split: list.splits awaited.splits option.splits)

theorem more_available_iff_page_below_total_witness:
  "hasMore (fst (fetchMovies initial_state ''batman'' 1
      (HttpResponse True (Body (batman_page 1))) (Resolved ()) (Resolved [])))
   \<and> \<not> hasMore (fst (fetchMovies initial_state ''batman'' 5
      (HttpResponse True (Body (batman_page 5))) (Resolved ()) (Resolved [])))"
  using more_available_iff_page_below_total [of "HttpResponse True (Body (batman_page 1))"
      "batman_page 1" 1 5 initial_state "''batman''" 1 "Resolved ()" "Resolved []"]
    more_available_iff_page_below_total [of "HttpResponse True (Body (batman_page 5))"
      "batman_page 5" 5 5 initial_state "''batman''" 5 "Resolved ()" "Resolved []"]
  by simp

text \<open>
  C8. When the debounced term changes to \<open>t\<close>, exactly one request is issued, for page 1
  of \<open>t\<close>, and in the state in which it is issued the page number is 1 and the error
  message is empty.
\<close>

theorem term_change_resets_before_fetch:
  assumes "t \<noteq> debouncedSearchTerm s"
  shows "snd (setDebouncedSearchTerm s t) = [HttpGet (endpoint t 1)]
       \<and> page (fst (setDebouncedSearchTerm s t)) = 1
       \<and> errorMessage (fst (setDebouncedSearchTerm s t)) = []
       \<and> debouncedSearchTerm (fst (setDebouncedSearchTerm s t)) = t"
  using assms
  by (simp add: setDebouncedSearchTerm_def debounced_term_effect_def page_effect_def
      fetchMovies_begin_def Let_def)

theorem term_change_resets_before_fetch_witness:
  "snd (setDebouncedSearchTerm (initial_state\<lparr>page := 4, errorMessage := ''Invalid API key''\<rparr>)
      ''batman'') = [HttpGet (SearchMovie ''batman'' 1)]
   \<and> page (fst (setDebouncedSearchTerm
      (initial_state\<lparr>page := 4, errorMessage := ''Invalid API key''\<rparr>) ''batman'')) = 1
   \<and> errorMessage (fst (setDebouncedSearchTerm
      (initial_state\<lparr>page := 4, errorMessage := ''Invalid API key''\<rparr>) ''batman'')) = []"
  using term_change_resets_before_fetch [of "''batman''"
      "initial_state\<lparr>page := 4, errorMessage := ''Invalid API key''\<rparr>"]
  by (simp add: initial_state_def endpoint_def)

text \<open>
  C9. The claim: a scroll event while a fetch is in flight neither advances the page
  nor issues a request, and a scroll event that advances the page triggers the fetch of
  that page. The code does not keep this. \<open>handleScroll\<close> tests the loading flag of the
  last render, and the \<open>finally\<close> block of every call of \<open>fetchMovies\<close> clears the flag.

  First run: after the first render the term changes to \<open>batman\<close>, so two calls are
  suspended; the response of the first arrives and clears the flag while the call for
  \<open>batman\<close> is still in flight; the scroll event near the bottom then advances the page
  from 1 to 2, and the next render issues the request for page 2.

  Second run: two scroll events near the bottom come before the next render; the page
  goes from 1 to 3, and the render issues the request for page 3 only: page 2 is never
  fetched.
\<close>

theorem scroll_guard_broken:
  "in_flight (run [Render, Typed ''batman'', Render, Debounced, Render,
       Arrived 0 (HttpResponse True (Body (batman_page 1))) (Resolved ()) (Resolved []),
       Render]) = [(''batman'', 1)]
   \<and> page (hooks (run [Render, Typed ''batman'', Render, Debounced, Render,
       Arrived 0 (HttpResponse True (Body (batman_page 1))) (Resolved ()) (Resolved []),
       Render])) = 1
   \<and> page (hooks (run [Render, Typed ''batman'', Render, Debounced, Render,
       Arrived 0 (HttpResponse True (Body (batman_page 1))) (Resolved ()) (Resolved []),
       Render, Scrolled near_bottom])) = 2
   \<and> snd (step (run [Render, Typed ''batman'', Render, Debounced, Render,
       Arrived 0 (HttpResponse True (Body (batman_page 1))) (Resolved ()) (Resolved []),
       Render, Scrolled near_bottom]) Render) = [HttpGet (SearchMovie ''batman'' 2)]
   \<and> page (hooks (run [Render,
       Arrived 0 (HttpResponse True (Body (batman_page 1))) (Resolved ()) (Resolved []),
       Render])) = 1
   \<and> page (hooks (run [Render,
       Arrived 0 (HttpResponse True (Body (batman_page 1))) (Resolved ()) (Resolved []),
       Render, Scrolled near_bottom, Scrolled near_bottom])) = 3
   \<and> snd (step (run [Render,
       Arrived 0 (HttpResponse True (Body (batman_page 1))) (Resolved ()) (Resolved []),
       Render, Scrolled near_bottom, Scrolled near_bottom]) Render) =
       [HttpGet (DiscoverMovie 3)]"
  by (simp add: run_def mounted_def app_mount_def rerender_def page_effect_def
      debounced_term_effect_def initial_state_def fetchMovies_begin_def endpoint_def
      fetchMovies_resume_def fetchMovies_try_def js_lt_def results_or_empty_def
      handleScroll_def Let_def)

text \<open>
  C10. On a response whose payload has \<open>Response\<close> equal to \<open>"False"\<close>, \<open>fetchMovies\<close>
  changes the error message and the movie list and leaves the loading flag cleared;
  every other field, the more-pages flag and the page number among them, keeps its
  value, and the only event of the run is the request itself: no update, no retrieval,
  no log.
\<close>

theorem failure_flag_frame:
  assumes "fo = HttpResponse True (Body d)"
    and "data_Response d = Some ''False''"
  shows "fst (fetchMovies s q pn fo usc gtm) =
           s\<lparr>errorMessage := errorMessage (fst (fetchMovies s q pn fo usc gtm)),
             movieList := movieList (fst (fetchMovies s q pn fo usc gtm)),
             isLoading := False\<rparr>
       \<and> hasMore (fst (fetchMovies s q pn fo usc gtm)) = hasMore s
       \<and> page (fst (fetchMovies s q pn fo usc gtm)) = page s
       \<and> trendingMovies (fst (fetchMovies s q pn fo usc gtm)) = trendingMovies s
       \<and> debouncedSearchTerm (fst (fetchMovies s q pn fo usc gtm)) = debouncedSearchTerm s
       \<and> searchTerm (fst (fetchMovies s q pn fo usc gtm)) = searchTerm s
       \<and> isLoading (fst (fetchMovies s q pn fo usc gtm)) = False
       \<and> snd (fetchMovies s q pn fo usc gtm) = [HttpGet (endpoint q pn)]
       \<and> snd (fetchMovies_resume s q pn fo usc gtm) = []
       \<and> hasMore (fst (fetchMovies_resume s q pn fo usc gtm)) = hasMore s
       \<and> page (fst (fetchMovies_resume s q pn fo usc gtm)) = page s"
  using assms
  by (simp add: fetch_defs Let_def)

theorem failure_flag_frame_witness:
  "hasMore (fst (fetchMovies (initial_state\<lparr>page := 3, hasMore := False\<rparr>) ''batman'' 1
      (HttpResponse True (Body invalid_key)) (Resolved ()) (Resolved []))) = False
   \<and> page (fst (fetchMovies (initial_state\<lparr>page := 3, hasMore := False\<rparr>) ''batman'' 1
      (HttpResponse True (Body invalid_key)) (Resolved ()) (Resolved []))) = 3
   \<and> snd (fetchMovies (initial_state\<lparr>page := 3, hasMore := False\<rparr>) ''batman'' 1
      (HttpResponse True (Body invalid_key)) (Resolved ()) (Resolved [])) =
      [HttpGet (SearchMovie ''batman'' 1)]"
proof -
  have h: "data_Response invalid_key = Some ''False''"
    by simp
  show ?thesis
    using failure_flag_frame [OF refl h, of "initial_state\<lparr>page := 3, hasMore := False\<rparr>"
        "''batman''" 1 "Resolved ()" "Resolved []", THEN conjunct2]
    by (simp add: initial_state_def endpoint_def)
qed

end
